theory Spec2Isabelle
  imports Main
begin

section \<open>Common values\<close>

text \<open>
  Modelled from the spec: \<open>error\<close> and \<open>ufl_assert\<close> belong to the logging module, which
  is not part of the sources. By the spec a violated precondition is a fatal failure
  raised at the point of detection with a descriptive message: \<open>error(...)\<close> and a failed
  \<open>ufl_assert\<close> raise the library's exception with their message.
  The other failures are those of Python itself: a failed \<open>assert\<close> raises
  \<open>AssertionError\<close>, a missing dictionary key \<open>KeyError\<close>, an unbound name \<open>NameError\<close>,
  a missing attribute \<open>AttributeError\<close>, a call with arguments of the wrong kind or
  number \<open>TypeError\<close>, an unpacking of the wrong length \<open>ValueError\<close>.
\<close>

datatype error =
    UFLException string
  | AssertionError
  | AttributeError string
  | KeyError
  | NameError string
  | TypeError
  | ValueError

text \<open>Sequencing of fallible steps: the first failure is the result.\<close>

definition bind_result :: "error + 'a \<Rightarrow> ('a \<Rightarrow> error + 'b) \<Rightarrow> error + 'b" where
  "bind_result m k = (case m of Inl e \<Rightarrow> Inl e | Inr v \<Rightarrow> k v)"

text \<open>A generator expression \<open>tuple(g(x) for x in xs)\<close> with a fallible \<open>g\<close>:
  evaluated left to right, stopping at the first failure.\<close>

fun map_result :: "('a \<Rightarrow> error + 'b) \<Rightarrow> 'a list \<Rightarrow> error + 'b list" where
  "map_result g [] = Inr []"
| "map_result g (x # xs) =
     (case g x of
        Inl e \<Rightarrow> Inl e
      | Inr y \<Rightarrow> (case map_result g xs of Inl e \<Rightarrow> Inl e | Inr ys \<Rightarrow> Inr (y # ys)))"

text \<open>A Python value that is \<open>None\<close>, one object, or a tuple of objects
  (a domain or a mixed domain, a cell or a mixed cell).\<close>

datatype 'a opt_tuple = PyNone | Single 'a | Tuple "'a list"

section \<open>Function spaces (functionspace.py)\<close>

subsection \<open>The external handles\<close>

text \<open>
  Modelled from the spec: cells, domains and elements belong to collaborators that are not
  part of the sources (\<open>ufl.domain\<close>, \<open>ufl.finiteelement\<close>); the spec describes them as opaque
  handles exposing \<open>cell()\<close>, equality, and hash-data and signature-data operations.
  A handle is modelled by what these operations return.
  A cell is known by its name. A domain either has a \<open>ufl_cell\<close> attribute or not
  (\<open>None\<close> below is the missing attribute of an abstract domain), and carries an
  identity. An element has the cell returned by \<open>cell()\<close> (\<open>None\<close>, a cell or a tuple of
  cells), a value shape, and a fingerprint that does not depend on a renumbering.
\<close>

datatype cell = Cell string

type_synonym cell_value = "cell opt_tuple"

datatype domain = Domain (domain_ufl_cell: "cell_value option") (domain_id: nat)

datatype element =
  Element (element_cell: cell_value) (value_shape: "nat list") (element_fingerprint: string)

subsection \<open>FunctionSpace\<close>

text \<open>The two attributes \<open>_ufl_domain\<close> and \<open>_ufl_element\<close>.\<close>

datatype function_space =
  FunctionSpace (fs_domain: "domain opt_tuple") (fs_element: "element option")

definition msg_abstract_domain :: string where
  "msg_abstract_domain = ''Expected non-abstract domain for initalization of function space.''"

definition msg_cell_mismatch :: string where
  "msg_cell_mismatch = ''Non-matching cell of finite element and domain.''"

definition msg_mixed_cell :: string where
  "msg_mixed_cell = ''Must have a mixed cell (tuple) if we have a mixed domain (tuple).''"

definition msg_mixed_length :: string where
  "msg_mixed_length = ''Mixed cell (tuple) and mixed domain (tuple) must have the same length.''"

text \<open>The local function \<open>check_domain(d, c)\<close> of \<open>FunctionSpace.__init__\<close>.\<close>

definition check_domain :: "domain \<Rightarrow> cell_value \<Rightarrow> error + unit" where
  "check_domain d c =
     (case domain_ufl_cell d of
        None \<Rightarrow> Inl (UFLException msg_abstract_domain)
      | Some domain_cell \<Rightarrow>
          if c \<noteq> domain_cell then Inl (UFLException msg_cell_mismatch) else Inr ())"

text \<open>The loop \<open>for d, c in zip(domain, cell): check_domain(d, c)\<close>.\<close>

fun check_domains :: "(domain \<times> cell) list \<Rightarrow> error + unit" where
  "check_domains [] = Inr ()"
| "check_domains ((d, c) # rest) =
     (case check_domain d (Single c) of Inl e \<Rightarrow> Inl e | Inr _ \<Rightarrow> check_domains rest)"

text \<open>\<open>element.cell()\<close>: the element may be \<open>None\<close>, which has no such method.\<close>

definition cell_of :: "element option \<Rightarrow> error + cell_value" where
  "cell_of element =
     (case element of
        None \<Rightarrow> Inl (AttributeError ''cell'')
      | Some e \<Rightarrow> Inr (element_cell e))"

text \<open>\<open>FunctionSpace.__init__(self, domain, element)\<close>.\<close>

definition FunctionSpace_init ::
  "domain opt_tuple \<Rightarrow> element option \<Rightarrow> error + function_space" where
  "FunctionSpace_init domain element =
     (case domain of
        PyNone \<Rightarrow> Inr (FunctionSpace domain element)
      | Tuple ds \<Rightarrow>
          bind_result (cell_of element) (\<lambda>cell.
            case cell of
              Tuple cs \<Rightarrow>
                if length ds \<noteq> length cs then Inl (UFLException msg_mixed_length)
                else bind_result (check_domains (zip ds cs))
                       (\<lambda>_. Inr (FunctionSpace domain element))
            | _ \<Rightarrow> Inl (UFLException msg_mixed_cell))
      | Single d \<Rightarrow>
          bind_result (cell_of element) (\<lambda>cell.
            bind_result (check_domain d cell)
              (\<lambda>_. Inr (FunctionSpace domain element))))"

text \<open>The accessors of \<open>FunctionSpace\<close>.\<close>

definition FunctionSpace_mixed :: "function_space \<Rightarrow> bool" where
  "FunctionSpace_mixed V = (case fs_domain V of Tuple _ \<Rightarrow> True | _ \<Rightarrow> False)"

definition FunctionSpace_ufl_domains :: "function_space \<Rightarrow> domain list" where
  "FunctionSpace_ufl_domains V =
     (case fs_domain V of Tuple ds \<Rightarrow> ds | PyNone \<Rightarrow> [] | Single d \<Rightarrow> [d])"

subsection \<open>The three kinds of function space\<close>

text \<open>
  \<open>TensorProductFunctionSpace\<close> keeps its arguments as they come.
  \<open>MixedFunctionSpace\<close> keeps its arguments (\<open>_ufl_function_spaces\<close>) and the list
  \<open>_ufl_elements\<close> that its constructor fills, one entry for each argument.
\<close>

datatype abstract_function_space =
    FS function_space
  | TensorProductFunctionSpace "abstract_function_space list"
  | MixedFunctionSpace "abstract_function_space list" "element option list"

definition msg_expecting_function_space :: string where
  "msg_expecting_function_space = ''Expecting FunctionSpace objects''"

definition msg_multiple_elements :: string where
  "msg_multiple_elements = ''Found multiple elements. Cannot return only one.''"

text \<open>The loop of \<open>MixedFunctionSpace.__init__\<close>: every argument must be an instance of
  \<open>FunctionSpace\<close>, and its element is appended to the list.\<close>

fun collect_elements ::
  "abstract_function_space list \<Rightarrow> element option list \<Rightarrow> error + element option list" where
  "collect_elements [] elements = Inr elements"
| "collect_elements (FS V # args) elements = collect_elements args (elements @ [fs_element V])"
| "collect_elements (_ # args) elements = Inl (UFLException msg_expecting_function_space)"

definition MixedFunctionSpace_init ::
  "abstract_function_space list \<Rightarrow> error + abstract_function_space" where
  "MixedFunctionSpace_init args =
     bind_result (collect_elements args []) (\<lambda>elements. Inr (MixedFunctionSpace args elements))"

text \<open>The methods, dispatched on the class of the space. A class that does not define
  a method fails with \<open>AttributeError\<close>; \<open>AbstractFunctionSpace\<close> itself defines only
  \<open>ufl_sub_spaces\<close>, which every class overrides.\<close>

fun ufl_sub_spaces :: "abstract_function_space \<Rightarrow> abstract_function_space list" where
  "ufl_sub_spaces (FS V) = []"
| "ufl_sub_spaces (TensorProductFunctionSpace spaces) = spaces"
| "ufl_sub_spaces (MixedFunctionSpace spaces elements) = spaces"

fun ufl_elements :: "abstract_function_space \<Rightarrow> error + element option list" where
  "ufl_elements (MixedFunctionSpace spaces elements) = Inr elements"
| "ufl_elements _ = Inl (AttributeError ''ufl_elements'')"

fun ufl_element :: "abstract_function_space \<Rightarrow> error + element option" where
  "ufl_element (FS V) = Inr (fs_element V)"
| "ufl_element (MixedFunctionSpace spaces elements) =
     (if length elements = 1 then Inr (elements ! 0)
      else Inl (UFLException msg_multiple_elements))"
| "ufl_element (TensorProductFunctionSpace spaces) = Inl (AttributeError ''ufl_element'')"

fun num_sub_spaces :: "abstract_function_space \<Rightarrow> error + nat" where
  "num_sub_spaces (MixedFunctionSpace spaces elements) = Inr (length spaces)"
| "num_sub_spaces _ = Inl (AttributeError ''num_sub_spaces'')"

subsection \<open>Hash data and equality of spaces\<close>

text \<open>
  Modelled from the spec: the hash-data of a domain and of an element are operations of
  the external handles, independent of any renumbering; they are taken to return the
  handle's own data.
\<close>

datatype domain_hash_data = DomainHashData "cell_value option" nat

definition Domain_hash_data :: "domain \<Rightarrow> domain_hash_data" where
  "Domain_hash_data d = DomainHashData (domain_ufl_cell d) (domain_id d)"

definition Element_hash_data :: "element \<Rightarrow> string" where
  "Element_hash_data e = element_fingerprint e"

text \<open>The tuples returned by \<open>_ufl_hash_data_\<close>; the constructor is the leading tag.\<close>

datatype hash_data =
    HashFunctionSpace "domain_hash_data opt_tuple" "string option"
  | HashTensorProductFunctionSpace "hash_data list"
  | HashMixedFunctionSpace "hash_data list"

definition FunctionSpace_hash_data :: "function_space \<Rightarrow> hash_data" where
  "FunctionSpace_hash_data V =
     (let domain = fs_domain V;
          element = fs_element V;
          ddata = (case domain of
                     PyNone \<Rightarrow> PyNone
                   | Tuple ds \<Rightarrow> Tuple (map Domain_hash_data ds)
                   | Single d \<Rightarrow> Single (Domain_hash_data d));
          edata = (case element of None \<Rightarrow> None | Some e \<Rightarrow> Some (Element_hash_data e))
      in HashFunctionSpace ddata edata)"

fun ufl_hash_data :: "abstract_function_space \<Rightarrow> hash_data" where
  "ufl_hash_data (FS V) = FunctionSpace_hash_data V"
| "ufl_hash_data (TensorProductFunctionSpace spaces) =
     HashTensorProductFunctionSpace (map ufl_hash_data spaces)"
| "ufl_hash_data (MixedFunctionSpace spaces elements) =
     HashMixedFunctionSpace (map ufl_hash_data spaces)"

text \<open>
  Modelled from the spec: the decorator \<open>attach_operators_from_hash_data\<close> of
  \<open>ufl.core.ufl_type\<close> is not part of the sources. By the spec the equality of spaces is
  structural, combining the data of the sub-spaces recursively rather than comparing by
  identity: two spaces are equal when their hash-data are (the leading tag of the
  hash-data is the class).
\<close>

definition function_space_eq :: "abstract_function_space \<Rightarrow> abstract_function_space \<Rightarrow> bool" where
  "function_space_eq V W = (ufl_hash_data V = ufl_hash_data W)"

section \<open>Coefficients (coefficient.py)\<close>

text \<open>The attributes \<open>_ufl_function_space\<close>, \<open>_count\<close>, \<open>_part\<close> and \<open>_parent\<close>; the parent
  is \<open>None\<close> or another coefficient.\<close>

datatype coefficient =
  Coefficient (ufl_function_space: abstract_function_space) (count: int)
    (part: "int option") (parent: "coefficient option")

text \<open>A value that \<open>__eq__\<close> may be given: a coefficient or an object of another class.\<close>

datatype pyobject = PyCoefficient coefficient | PyOther

text \<open>
  \<open>Coefficient.__eq__\<close>. Values have no object identity: \<open>self is other\<close> is modelled by
  equality of the two values, which it implies. Where two distinct objects carry equal
  values the Python code reaches the last line instead, which then compares a count and
  a function space with themselves.
\<close>

definition Coefficient_eq :: "coefficient \<Rightarrow> pyobject \<Rightarrow> bool" where
  "Coefficient_eq self other =
     (case other of
        PyOther \<Rightarrow> False
      | PyCoefficient c \<Rightarrow>
          if self = c then True
          else count self = count c \<and>
               function_space_eq (ufl_function_space self) (ufl_function_space c))"

subsection \<open>Signature data\<close>

text \<open>
  The renumbering is a dictionary whose keys are the counted objects of a form:
  coefficients and domains. Looking up a key that is absent raises \<open>KeyError\<close>.
\<close>

datatype renumbering_key = CoefficientKey coefficient | DomainKey domain

type_synonym renumbering = "renumbering_key \<Rightarrow> int option"

definition lookup :: "renumbering \<Rightarrow> renumbering_key \<Rightarrow> error + int" where
  "lookup renumbering k = (case renumbering k of None \<Rightarrow> Inl KeyError | Some n \<Rightarrow> Inr n)"

text \<open>
  Modelled from the spec: the signature-data of a domain and of an element are operations
  of the external handles. By the spec the signature-data of a counted entity embeds a tag
  and its renumbered identity; that of an element takes no renumbering.
\<close>

datatype domain_signature_data = DomainSignatureData int

definition Domain_signature_data :: "renumbering \<Rightarrow> domain \<Rightarrow> error + domain_signature_data" where
  "Domain_signature_data renumbering d =
     bind_result (lookup renumbering (DomainKey d)) (\<lambda>n. Inr (DomainSignatureData n))"

definition Element_signature_data :: "element \<Rightarrow> string" where
  "Element_signature_data e = element_fingerprint e"

text \<open>The tuples returned by \<open>_ufl_signature_data_\<close> of the spaces.\<close>

datatype signature_data =
    SigFunctionSpace "domain_signature_data opt_tuple" "string option"
  | SigTensorProductFunctionSpace "signature_data list"
  | SigMixedFunctionSpace "signature_data list"

definition FunctionSpace_signature_data ::
  "renumbering \<Rightarrow> function_space \<Rightarrow> error + signature_data" where
  "FunctionSpace_signature_data renumbering V =
     (let domain = fs_domain V;
          element = fs_element V
      in bind_result
           (case domain of
              PyNone \<Rightarrow> Inr PyNone
            | Tuple ds \<Rightarrow>
                bind_result (map_result (Domain_signature_data renumbering) ds)
                  (\<lambda>t. Inr (Tuple t))
            | Single d \<Rightarrow>
                bind_result (Domain_signature_data renumbering d) (\<lambda>s. Inr (Single s)))
           (\<lambda>ddata.
              let edata = (case element of
                             None \<Rightarrow> None
                           | Some e \<Rightarrow> Some (Element_signature_data e))
              in Inr (SigFunctionSpace ddata edata)))"

fun ufl_signature_data :: "renumbering \<Rightarrow> abstract_function_space \<Rightarrow> error + signature_data"
and ufl_signature_data_list ::
  "renumbering \<Rightarrow> abstract_function_space list \<Rightarrow> error + signature_data list" where
  "ufl_signature_data renumbering (FS V) = FunctionSpace_signature_data renumbering V"
| "ufl_signature_data renumbering (TensorProductFunctionSpace spaces) =
     bind_result (ufl_signature_data_list renumbering spaces)
       (\<lambda>t. Inr (SigTensorProductFunctionSpace t))"
| "ufl_signature_data renumbering (MixedFunctionSpace spaces elements) =
     bind_result (ufl_signature_data_list renumbering spaces)
       (\<lambda>t. Inr (SigMixedFunctionSpace t))"
| "ufl_signature_data_list renumbering [] = Inr []"
| "ufl_signature_data_list renumbering (V # spaces) =
     (case ufl_signature_data renumbering V of
        Inl e \<Rightarrow> Inl e
      | Inr s \<Rightarrow>
          (case ufl_signature_data_list renumbering spaces of
             Inl e \<Rightarrow> Inl e
           | Inr t \<Rightarrow> Inr (s # t)))"

text \<open>The tuple \<open>("Coefficient", count, self._part, self._parent, fsdata)\<close>: the part and
  the parent are stored as they are, the parent being the coefficient object itself.\<close>

datatype coefficient_signature_data =
  SigCoefficient int "int option" "coefficient option" signature_data

definition Coefficient_signature_data ::
  "renumbering \<Rightarrow> coefficient \<Rightarrow> error + coefficient_signature_data" where
  "Coefficient_signature_data renumbering self =
     bind_result (lookup renumbering (CoefficientKey self)) (\<lambda>count.
       bind_result (ufl_signature_data renumbering (ufl_function_space self)) (\<lambda>fsdata.
         Inr (SigCoefficient count (part self) (parent self) fsdata)))"



section \<open>Differential operators (differentiation.py)\<close>

text \<open>
  An index is known by its count. An axis of a shape is a number or the default spatial
  dimension \<open>DefaultDim\<close>.
\<close>

type_synonym index = nat

datatype dim = Dim nat | DefaultDim

text \<open>
  Modelled from the spec: the base class \<open>UFLObject\<close> and the class \<open>Variable\<close> are
  imported from modules that are not part of the sources. \<open>UFLObject\<close> below stands for
  any node of a class that this module does not define, known by what its \<open>shape()\<close> and
  \<open>free_indices()\<close> return. A \<open>Variable\<close> wraps an expression under a label, and its shape
  and free indices are those of the wrapped expression.
  The other constructors are the classes of this module: \<open>Diff\<close> stores \<open>_f\<close>, \<open>_x\<close>,
  \<open>_free_indices\<close> and \<open>_shape\<close>, the other operators store their operand.
\<close>

datatype expr =
    UFLObject "dim list" "index list"
  | Variable expr nat
  | Diff expr expr "index list" "dim list"
  | Grad expr
  | Div expr
  | Curl expr
  | Rot expr

fun free_indices :: "expr \<Rightarrow> index list" where
  "free_indices (UFLObject sh fi) = fi"
| "free_indices (Variable e l) = free_indices e"
| "free_indices (Diff f x fi sh) = fi"
| "free_indices (Grad f) = free_indices f"
| "free_indices (Div f) = free_indices f"
| "free_indices (Curl f) = free_indices f"
| "free_indices (Rot f) = free_indices f"

fun shape :: "expr \<Rightarrow> dim list" where
  "shape (UFLObject sh fi) = sh"
| "shape (Variable e l) = shape e"
| "shape (Diff f x fi sh) = sh"
| "shape (Grad f) = DefaultDim # shape f"
| "shape (Div f) = drop 1 (shape f)"
| "shape (Curl f) = [DefaultDim]"
| "shape (Rot f) = []"

text \<open>Modelled from the spec: \<open>rank()\<close> belongs to the base class, which is not part of
  the sources; the rank is the number of axes of the shape.\<close>

definition rank :: "expr \<Rightarrow> nat" where
  "rank f = length (shape f)"

text \<open>An argument of a constructor: a node, or a Python value that is no \<open>UFLObject\<close>.\<close>

datatype pyvalue = UFLObj expr | NonUFL

text \<open>Modelled from the spec: \<open>ufl_assert(condition, message)\<close>, of a module that is
  not part of the sources, raises with the message when the condition is false.\<close>

definition ufl_assert :: "bool \<Rightarrow> string \<Rightarrow> error + unit" where
  "ufl_assert condition message = (if condition then Inr () else Inl (UFLException message))"

text \<open>The set operator \<open>^\<close> of Python: the symmetric difference.\<close>

definition symmetric_difference :: "'a set \<Rightarrow> 'a set \<Rightarrow> 'a set" where
  "symmetric_difference A B = (A - B) \<union> (B - A)"

definition isinstance_UFLObject :: "pyvalue \<Rightarrow> bool" where
  "isinstance_UFLObject v = (case v of UFLObj e \<Rightarrow> True | NonUFL \<Rightarrow> False)"

definition isinstance_Variable :: "pyvalue \<Rightarrow> bool" where
  "isinstance_Variable v = (case v of UFLObj (Variable e l) \<Rightarrow> True | _ \<Rightarrow> False)"

definition msg_diff_object :: string where
  "msg_diff_object = ''Expecting an UFLObject in Diff.''"

definition msg_diff_variable :: string where
  "msg_diff_variable = ''Expecting a Variable in Diff.''"

definition msg_diff_repeated :: string where
  "msg_diff_repeated = ''Repeated indices not allowed in Diff.''"

text \<open>\<open>Diff.__init__(self, f, x)\<close>.\<close>

definition Diff_init :: "pyvalue \<Rightarrow> pyvalue \<Rightarrow> error + expr" where
  "Diff_init f x =
     bind_result (ufl_assert (isinstance_UFLObject f) msg_diff_object) (\<lambda>_.
     bind_result (ufl_assert (isinstance_Variable x) msg_diff_variable) (\<lambda>_.
       case (f, x) of
         (UFLObj f', UFLObj x') \<Rightarrow>
           (let fi = free_indices f';
                xi = free_indices x'
            in bind_result
                 (ufl_assert (card (symmetric_difference (set fi) (set xi)) = 0)
                    msg_diff_repeated)
                 (\<lambda>_. Inr (Diff f' x' (fi @ xi) (shape f' @ shape x'))))
       | _ \<Rightarrow> Inl (AttributeError ''free_indices'')))"

definition msg_grad_free :: string where
  "msg_grad_free = ''TODO: Taking gradient of an expression with free indices''"

definition msg_div_scalar :: string where
  "msg_div_scalar = ''Can't take the divergence of a scalar.''"

definition msg_div_free :: string where
  "msg_div_free = ''TODO: Taking divergence of an expression with free indices''"

definition msg_need_vector :: string where
  "msg_need_vector = ''Need a vector.''"

definition msg_curl_free :: string where
  "msg_curl_free = ''TODO: Taking curl of an expression with free indices''"

definition msg_rot_free :: string where
  "msg_rot_free = ''TODO: Taking rot of an expression with free indices''"

text \<open>The constructors of \<open>Grad\<close>, \<open>Div\<close>, \<open>Curl\<close> and \<open>Rot\<close>, with their assertions in the
  order of the source. The long messages are cut after their first words.\<close>

definition Grad_init :: "expr \<Rightarrow> error + expr" where
  "Grad_init f =
     bind_result (ufl_assert (length (free_indices f) = 0) msg_grad_free) (\<lambda>_. Inr (Grad f))"

definition Div_init :: "expr \<Rightarrow> error + expr" where
  "Div_init f =
     bind_result (ufl_assert (rank f \<ge> 1) msg_div_scalar) (\<lambda>_.
     bind_result (ufl_assert (length (free_indices f) = 0) msg_div_free) (\<lambda>_.
       Inr (Div f)))"

definition Curl_init :: "expr \<Rightarrow> error + expr" where
  "Curl_init f =
     bind_result (ufl_assert (rank f = 1) msg_need_vector) (\<lambda>_.
     bind_result (ufl_assert (length (free_indices f) = 0) msg_curl_free) (\<lambda>_.
       Inr (Curl f)))"

definition Rot_init :: "expr \<Rightarrow> error + expr" where
  "Rot_init f =
     bind_result (ufl_assert (rank f = 1) msg_need_vector) (\<lambda>_.
     bind_result (ufl_assert (length (free_indices f) = 0) msg_rot_free) (\<lambda>_.
       Inr (Rot f)))"

section \<open>Labels and variables (variable2.py)\<close>

text \<open>Modelled from the spec: the base class \<open>Counted\<close> is not part of the sources; a
  label is a counted terminal, which carries an integer count and nothing else.
  A \<open>NewVariable\<close> stores \<open>_expression\<close> and \<open>_label\<close>; the wrapped expression may be any
  expression, so its type is left open.\<close>

datatype label = Label (label_count: int)

datatype 'e newvariable = NewVariable (nv_expression: 'e) (nv_label: label)

text \<open>
  The names that the module binds at its top level, by its imports and its two class
  statements, and the classes they are bound to. \<open>ufl_assert\<close> is bound to a function.
  A name that the module does not bind (and that is no builtin) raises \<open>NameError\<close> where
  it is evaluated.
\<close>

datatype pyclass =
    Counted_class | Expr_class | Terminal_class | Label_class | NewVariable_class

datatype global_binding = ClassObject pyclass | FunctionObject

type_synonym globals = "string \<Rightarrow> global_binding option"

definition variable2_globals :: globals where
  "variable2_globals =
     map_of [(''Counted'', ClassObject Counted_class),
             (''ufl_assert'', FunctionObject),
             (''Expr'', ClassObject Expr_class),
             (''Terminal'', ClassObject Terminal_class),
             (''Label'', ClassObject Label_class),
             (''NewVariable'', ClassObject NewVariable_class)]"

text \<open>A value that \<open>__eq__\<close> may be given, and \<open>isinstance\<close> on it: \<open>Label\<close> derives from
  \<open>Terminal\<close> and \<open>Counted\<close>, \<open>NewVariable\<close> from \<open>Expr\<close>, and a terminal is an expression.\<close>

datatype 'e pyvalue2 = VNewVariable "'e newvariable" | VLabel label | VOther

fun isinstance :: "'e pyvalue2 \<Rightarrow> pyclass \<Rightarrow> bool" where
  "isinstance (VNewVariable v) c = (c = NewVariable_class \<or> c = Expr_class)"
| "isinstance (VLabel l) c =
     (c = Label_class \<or> c = Terminal_class \<or> c = Counted_class \<or> c = Expr_class)"
| "isinstance VOther c = False"

text \<open>
  \<open>NewVariable.__eq__\<close>:
  \<open>isinstance(other, Variable) and self._label._count == other._label._count\<close>.
  The name \<open>Variable\<close> is looked up among the globals of the module when the method runs;
  the right operand of \<open>and\<close> is evaluated only when the left one is true, and reads the
  attribute \<open>_label\<close>, which only a \<open>NewVariable\<close> has.
\<close>

definition NewVariable_eq :: "globals \<Rightarrow> 'e newvariable \<Rightarrow> 'e pyvalue2 \<Rightarrow> error + bool" where
  "NewVariable_eq g self other =
     (case g ''Variable'' of
        None \<Rightarrow> Inl (NameError ''Variable'')
      | Some FunctionObject \<Rightarrow> Inl TypeError
      | Some (ClassObject c) \<Rightarrow>
          if isinstance other c then
            (case other of
               VNewVariable w \<Rightarrow> Inr (label_count (nv_label self) = label_count (nv_label w))
             | _ \<Rightarrow> Inl (AttributeError ''_label''))
          else Inr False)"

section \<open>Transform propagation (algorithms/apply_transforms.py)\<close>

subsection \<open>Expression nodes\<close>

text \<open>
  Modelled from the spec: the node classes belong to \<open>ufl.classes\<close>, which is not part of
  the sources. A terminal has no operands; \<open>Coefficient\<close> (above) is a form argument, and
  the terminals of other classes are known by the name of their class and by whether the
  class derives from \<open>FormArgument\<close>. A reference-value node has one operand. A
  \<open>Transformed\<close> node has two: the wrapped expression and the carried operator. Every
  other compound node is an \<open>Operator\<close> with the name of its class and its operands.
  An expression DAG is modelled by the tree that it unfolds to: nodes are immutable, so
  sharing changes no result.
\<close>

datatype terminal =
    CoefficientTerminal coefficient
  | FormArgumentTerminal string
  | OtherTerminal string

datatype uexpr =
    Terminal terminal
  | ReferenceValue uexpr
  | Transformed uexpr uexpr
  | Operator string "uexpr list"

fun ufl_operands :: "uexpr \<Rightarrow> uexpr list" where
  "ufl_operands (Terminal t) = []"
| "ufl_operands (ReferenceValue f) = [f]"
| "ufl_operands (Transformed A transform_op) = [A, transform_op]"
| "ufl_operands (Operator name ops) = ops"

text \<open>The attribute \<open>_ufl_is_terminal_\<close> and the test \<open>isinstance(f, FormArgument)\<close>.\<close>

fun ufl_is_terminal :: "uexpr \<Rightarrow> bool" where
  "ufl_is_terminal (Terminal t) = True"
| "ufl_is_terminal _ = False"

fun isinstance_FormArgument :: "uexpr \<Rightarrow> bool" where
  "isinstance_FormArgument (Terminal (CoefficientTerminal c)) = True"
| "isinstance_FormArgument (Terminal (FormArgumentTerminal name)) = True"
| "isinstance_FormArgument _ = False"

text \<open>Modelled from the spec: \<open>_ufl_expr_reconstruct_\<close> builds a new node of the same
  class from new operands.\<close>

fun ufl_expr_reconstruct :: "uexpr \<Rightarrow> uexpr list \<Rightarrow> error + uexpr" where
  "ufl_expr_reconstruct (Terminal t) [] = Inr (Terminal t)"
| "ufl_expr_reconstruct (ReferenceValue f) [f'] = Inr (ReferenceValue f')"
| "ufl_expr_reconstruct (Transformed A transform_op) [A', transform_op'] =
     Inr (Transformed A' transform_op')"
| "ufl_expr_reconstruct (Operator name ops) ops' = Inr (Operator name ops')"
| "ufl_expr_reconstruct _ _ = Inl TypeError"

subsection \<open>Rulesets and the traversal engine\<close>

text \<open>
  Modelled from the spec: \<open>MultiFunction\<close> and \<open>map_expr_dag\<close> belong to \<open>ufl.corealg\<close>,
  which is not part of the sources. A ruleset gives a handler to some node kinds; a node
  is handled by the handler of its own kind or else of the nearest kind it derives from,
  and a node with no handler at all fails as an unhandled node kind. A handler takes the
  node alone (then the traversal does not descend into the node) or the node with the
  results of its operands. The traversal is one post-order pass: the operands of a node
  are resolved first, from left to right, then the rule of the node is applied to the
  node and the results; the first failure is the result of the pass.
\<close>

datatype handler_name =
    H_expr | H_terminal | H_form_argument | H_coefficient
  | H_operator | H_reference_value | H_transformed
  | H_class string

datatype handler =
    NodeOnly "uexpr \<Rightarrow> error + uexpr"
  | WithOperands "uexpr \<Rightarrow> uexpr list \<Rightarrow> error + uexpr"

type_synonym ruleset = "handler_name \<Rightarrow> handler option"

fun handler_names :: "uexpr \<Rightarrow> handler_name list" where
  "handler_names (Terminal (CoefficientTerminal c)) =
     [H_coefficient, H_form_argument, H_terminal, H_expr]"
| "handler_names (Terminal (FormArgumentTerminal name)) =
     [H_class name, H_form_argument, H_terminal, H_expr]"
| "handler_names (Terminal (OtherTerminal name)) = [H_class name, H_terminal, H_expr]"
| "handler_names (ReferenceValue f) = [H_reference_value, H_operator, H_expr]"
| "handler_names (Transformed A transform_op) = [H_transformed, H_operator, H_expr]"
| "handler_names (Operator name ops) = [H_class name, H_operator, H_expr]"

fun find_handler :: "ruleset \<Rightarrow> handler_name list \<Rightarrow> handler option" where
  "find_handler rules [] = None"
| "find_handler rules (n # ns) =
     (case rules n of Some h \<Rightarrow> Some h | None \<Rightarrow> find_handler rules ns)"

definition msg_no_handler :: string where
  "msg_no_handler = ''No handler defined.''"

definition apply_handler :: "ruleset \<Rightarrow> uexpr \<Rightarrow> error + uexpr list \<Rightarrow> error + uexpr" where
  "apply_handler rules v operand_results =
     (case find_handler rules (handler_names v) of
        None \<Rightarrow> Inl (UFLException msg_no_handler)
      | Some (NodeOnly h) \<Rightarrow> h v
      | Some (WithOperands h) \<Rightarrow> bind_result operand_results (h v))"

text \<open>The results of the operands are used only by a handler that takes them, so it
  makes no difference to the result that they are written down for every node.\<close>

fun map_expr_dag :: "ruleset \<Rightarrow> uexpr \<Rightarrow> error + uexpr"
and map_expr_dag_operands :: "ruleset \<Rightarrow> uexpr list \<Rightarrow> error + uexpr list" where
  "map_expr_dag rules (Terminal t) = apply_handler rules (Terminal t) (Inr [])"
| "map_expr_dag rules (ReferenceValue f) =
     apply_handler rules (ReferenceValue f)
       (case map_expr_dag rules f of Inl e \<Rightarrow> Inl e | Inr r \<Rightarrow> Inr [r])"
| "map_expr_dag rules (Transformed A transform_op) =
     apply_handler rules (Transformed A transform_op)
       (case map_expr_dag rules A of
          Inl e \<Rightarrow> Inl e
        | Inr r \<Rightarrow>
            (case map_expr_dag rules transform_op of
               Inl e \<Rightarrow> Inl e
             | Inr r' \<Rightarrow> Inr [r, r']))"
| "map_expr_dag rules (Operator name ops) =
     apply_handler rules (Operator name ops) (map_expr_dag_operands rules ops)"
| "map_expr_dag_operands rules [] = Inr []"
| "map_expr_dag_operands rules (v # vs) =
     (case map_expr_dag rules v of
        Inl e \<Rightarrow> Inl e
      | Inr r \<Rightarrow>
          (case map_expr_dag_operands rules vs of
             Inl e \<Rightarrow> Inl e
           | Inr rs \<Rightarrow> Inr (r # rs)))"

text \<open>
  Modelled from the spec: \<open>MultiFunction.reuse_if_untouched\<close>. A compound node whose
  rewritten operands are all identical to its original operands is returned unchanged
  rather than rebuilt. Identity of objects is modelled by equality of values; rebuilding
  a node from operands equal to its own gives an equal node.
\<close>

definition reuse_if_untouched :: "uexpr \<Rightarrow> uexpr list \<Rightarrow> error + uexpr" where
  "reuse_if_untouched o' ops =
     (if ops = ufl_operands o' then Inr o' else ufl_expr_reconstruct o' ops)"

text \<open>Modelled from the spec: \<open>map_integrand_dags\<close> applies the traversal to the
  integrands of a form; on an expression it is \<open>map_expr_dag\<close>.\<close>

definition map_integrand_dags :: "ruleset \<Rightarrow> uexpr \<Rightarrow> error + uexpr" where
  "map_integrand_dags rules expression = map_expr_dag rules expression"

subsection \<open>The two rulesets and the pass\<close>

text \<open>\<open>TransformedRuleset.reference_value(self, o)\<close>, with \<open>self._transform_op\<close> as first
  argument. The unpacking \<open>f, = o.ufl_operands\<close> needs exactly one operand.\<close>

definition reference_value :: "uexpr \<Rightarrow> uexpr \<Rightarrow> error + uexpr" where
  "reference_value transform_op o' =
     (case ufl_operands o' of
        [f] \<Rightarrow>
          if \<not> ufl_is_terminal f then Inl AssertionError
          else if \<not> isinstance_FormArgument f then Inl AssertionError
          else Inr (Transformed o' transform_op)
      | _ \<Rightarrow> Inl ValueError)"

definition terminal :: "uexpr \<Rightarrow> error + uexpr" where
  "terminal o' = Inr o'"

definition TransformedRuleset :: "uexpr \<Rightarrow> ruleset" where
  "TransformedRuleset transform_op =
     map_of [(H_terminal, NodeOnly terminal),
             (H_expr, WithOperands reuse_if_untouched),
             (H_reference_value, NodeOnly (reference_value transform_op))]"

text \<open>\<open>TransformedRuleDispatcher.transformed(self, o, A, transform_op)\<close>: the last two
  arguments are the results of the two operands of \<open>o\<close>.\<close>

definition transformed :: "uexpr \<Rightarrow> uexpr list \<Rightarrow> error + uexpr" where
  "transformed o' operand_results =
     (case operand_results of
        [A, transform_op] \<Rightarrow> map_expr_dag (TransformedRuleset transform_op) A
      | _ \<Rightarrow> Inl TypeError)"

definition TransformedRuleDispatcher :: ruleset where
  "TransformedRuleDispatcher =
     map_of [(H_terminal, NodeOnly terminal),
             (H_expr, WithOperands reuse_if_untouched),
             (H_transformed, WithOperands transformed)]"

definition apply_transforms :: "uexpr \<Rightarrow> error + uexpr" where
  "apply_transforms expression = map_integrand_dags TransformedRuleDispatcher expression"

text \<open>A DAG that contains no \<open>Transformed\<close> node.\<close>

fun transformed_free :: "uexpr \<Rightarrow> bool" where
  "transformed_free (Terminal t) = True"
| "transformed_free (ReferenceValue f) = transformed_free f"
| "transformed_free (Transformed A transform_op) = False"
| "transformed_free (Operator name ops) = list_all transformed_free ops"

section \<open>Properties of the function spaces\<close>

lemma check_domains_ok:
  "(check_domains ps = Inr ()) \<longleftrightarrow> (\<forall>(d, c) \<in> set ps. domain_ufl_cell d = Some (Single c))"
  by (induction ps rule: check_domains.induct)
     (auto simp: check_domain_def split: option.splits sum.splits if_splits)

text \<open>
  C8. \<open>FunctionSpace.__init__\<close> validates the agreement of cells. When the domain and the
  element both give a cell, construction succeeds when the two are equal and fails with
  the cell-mismatch error otherwise. A tuple of domains is accepted exactly when the cell
  of the element is a tuple of the same length whose entries are, pair by pair, the cells
  of the domains; a cell that is no tuple and a tuple of another length are rejected with
  their own errors. A triangle domain with a tetrahedron element is rejected with the
  cell-mismatch error.
\<close>

theorem FunctionSpace_init_cell_agreement:
  "(domain_ufl_cell d = Some (Single c) \<and> element_cell e = Single c' \<longrightarrow>
      FunctionSpace_init (Single d) (Some e) =
        (if c = c' then Inr (FunctionSpace (Single d) (Some e))
         else Inl (UFLException msg_cell_mismatch)))
   \<and> ((\<exists>V. FunctionSpace_init (Tuple ds2) (Some e2) = Inr V) \<longleftrightarrow>
        (\<exists>cs. element_cell e2 = Tuple cs \<and> length ds2 = length cs \<and>
              (\<forall>(d', c'') \<in> set (zip ds2 cs). domain_ufl_cell d' = Some (Single c''))))
   \<and> ((\<forall>cs. element_cell e3 \<noteq> Tuple cs) \<longrightarrow>
        FunctionSpace_init (Tuple ds3) (Some e3) = Inl (UFLException msg_mixed_cell))
   \<and> (element_cell e4 = Tuple cs4 \<and> length ds4 \<noteq> length cs4 \<longrightarrow>
        FunctionSpace_init (Tuple ds4) (Some e4) = Inl (UFLException msg_mixed_length))
   \<and> FunctionSpace_init (Single (Domain (Some (Single (Cell ''triangle''))) 0))
        (Some (Element (Single (Cell ''tetrahedron'')) [] ''Lagrange''))
      = Inl (UFLException msg_cell_mismatch)"
proof (intro conjI)
  show "domain_ufl_cell d = Some (Single c) \<and> element_cell e = Single c' \<longrightarrow>
      FunctionSpace_init (Single d) (Some e) =
        (if c = c' then Inr (FunctionSpace (Single d) (Some e))
         else Inl (UFLException msg_cell_mismatch))"
    by (auto simp: FunctionSpace_init_def cell_of_def bind_result_def check_domain_def)
  show "(\<exists>V. FunctionSpace_init (Tuple ds2) (Some e2) = Inr V) \<longleftrightarrow>
        (\<exists>cs. element_cell e2 = Tuple cs \<and> length ds2 = length cs \<and>
              (\<forall>(d', c'') \<in> set (zip ds2 cs). domain_ufl_cell d' = Some (Single c'')))"
  proof (cases "element_cell e2")
    case (Tuple cs)
    show ?thesis
    proof (cases "length ds2 = length cs")
      case True
      have "(\<exists>V. FunctionSpace_init (Tuple ds2) (Some e2) = Inr V) \<longleftrightarrow>
              check_domains (zip ds2 cs) = Inr ()"
        using Tuple True
        by (auto simp: FunctionSpace_init_def cell_of_def bind_result_def split: sum.splits)
      then show ?thesis using Tuple True by (simp add: check_domains_ok)
    next
      case False
      then show ?thesis using Tuple
        by (auto simp: FunctionSpace_init_def cell_of_def bind_result_def)
    qed
  qed (auto simp: FunctionSpace_init_def cell_of_def bind_result_def)
  show "(\<forall>cs. element_cell e3 \<noteq> Tuple cs) \<longrightarrow>
        FunctionSpace_init (Tuple ds3) (Some e3) = Inl (UFLException msg_mixed_cell)"
    by (cases "element_cell e3")
       (auto simp: FunctionSpace_init_def cell_of_def bind_result_def)
  show "element_cell e4 = Tuple cs4 \<and> length ds4 \<noteq> length cs4 \<longrightarrow>
        FunctionSpace_init (Tuple ds4) (Some e4) = Inl (UFLException msg_mixed_length)"
    by (auto simp: FunctionSpace_init_def cell_of_def bind_result_def)
  show "FunctionSpace_init (Single (Domain (Some (Single (Cell ''triangle''))) 0))
        (Some (Element (Single (Cell ''tetrahedron'')) [] ''Lagrange''))
      = Inl (UFLException msg_cell_mismatch)"
    by (simp add: FunctionSpace_init_def cell_of_def bind_result_def check_domain_def)
qed


text \<open>The theorem at a triangle space, a mixed space on two cells, and two ill-formed
  mixed spaces.\<close>

theorem FunctionSpace_init_cell_agreement_witness:
  "FunctionSpace_init (Single (Domain (Some (Single (Cell ''triangle''))) 0))
        (Some (Element (Single (Cell ''triangle'')) [] ''Lagrange''))
     = Inr (FunctionSpace (Single (Domain (Some (Single (Cell ''triangle''))) 0))
             (Some (Element (Single (Cell ''triangle'')) [] ''Lagrange'')))
   \<and> (\<exists>V. FunctionSpace_init
             (Tuple [Domain (Some (Single (Cell ''triangle''))) 0,
                     Domain (Some (Single (Cell ''interval''))) 1])
             (Some (Element (Tuple [Cell ''triangle'', Cell ''interval'']) [] ''Mixed'')) = Inr V)
   \<and> FunctionSpace_init (Tuple [Domain (Some (Single (Cell ''triangle''))) 0])
        (Some (Element (Single (Cell ''triangle'')) [] ''Lagrange''))
     = Inl (UFLException msg_mixed_cell)
   \<and> FunctionSpace_init (Tuple [Domain (Some (Single (Cell ''triangle''))) 0])
        (Some (Element (Tuple [Cell ''triangle'', Cell ''interval'']) [] ''Mixed''))
     = Inl (UFLException msg_mixed_length)"
  using FunctionSpace_init_cell_agreement
    [of "Domain (Some (Single (Cell ''triangle''))) 0" "Cell ''triangle''"
        "Element (Single (Cell ''triangle'')) [] ''Lagrange''" "Cell ''triangle''"
        "[Domain (Some (Single (Cell ''triangle''))) 0,
          Domain (Some (Single (Cell ''interval''))) 1]"
        "Element (Tuple [Cell ''triangle'', Cell ''interval'']) [] ''Mixed''"
        "Element (Single (Cell ''triangle'')) [] ''Lagrange''"
        "[Domain (Some (Single (Cell ''triangle''))) 0]"
        "Element (Tuple [Cell ''triangle'', Cell ''interval'']) [] ''Mixed''"
        "[Cell ''triangle'', Cell ''interval'']"
        "[Domain (Some (Single (Cell ''triangle''))) 0]"]
  by simp

lemma collect_elements_Inr:
  "collect_elements args acc = Inr es \<Longrightarrow>
     \<exists>Vs. args = map FS Vs \<and> es = acc @ map fs_element Vs"
proof (induction args acc rule: collect_elements.induct)
  case (1 elements)
  then show ?case by simp
next
  case (2 V args elements)
  then obtain Vs where "args = map FS Vs" "es = (elements @ [fs_element V]) @ map fs_element Vs"
    by auto
  then have "FS V # args = map FS (V # Vs) \<and> es = elements @ map fs_element (V # Vs)"
    by simp
  then show ?case by (rule exI [where x = "V # Vs"])
qed simp_all

text \<open>
  C2 (as amended). The constructor of \<open>MixedFunctionSpace\<close> accepts only instances of
  \<open>FunctionSpace\<close> and records one element for each of them, duplicates included. On a
  space so built \<open>ufl_elements()\<close> returns this list, and \<open>ufl_element()\<close> returns the
  element when the space has exactly one sub-space and fails with the ambiguity error
  otherwise. In particular a space built from two function spaces fails \<open>ufl_element()\<close>
  while \<open>ufl_elements()\<close> returns both elements.
\<close>

theorem MixedFunctionSpace_ufl_element_one_sub_space:
  "(MixedFunctionSpace_init args = Inr M \<longrightarrow>
      (\<exists>Vs. args = map FS Vs \<and>
            ufl_elements M = Inr (map fs_element Vs) \<and>
            ufl_element M =
              (if length Vs = 1 then Inr (fs_element (hd Vs))
               else Inl (UFLException msg_multiple_elements))))
   \<and> MixedFunctionSpace_init [FS V, FS W] =
        Inr (MixedFunctionSpace [FS V, FS W] [fs_element V, fs_element W])
   \<and> ufl_element (MixedFunctionSpace [FS V, FS W] [fs_element V, fs_element W]) =
        Inl (UFLException msg_multiple_elements)
   \<and> ufl_elements (MixedFunctionSpace [FS V, FS W] [fs_element V, fs_element W]) =
        Inr [fs_element V, fs_element W]"
proof (intro conjI impI)
  assume init: "MixedFunctionSpace_init args = Inr M"
  then obtain es where es: "collect_elements args [] = Inr es" "M = MixedFunctionSpace args es"
    by (auto simp: MixedFunctionSpace_init_def bind_result_def split: sum.splits)
  from collect_elements_Inr [OF es(1)]
  obtain Vs where Vs: "args = map FS Vs" "es = map fs_element Vs" by auto
  have "ufl_element M =
          (if length Vs = 1 then Inr (fs_element (hd Vs))
           else Inl (UFLException msg_multiple_elements))"
    using es(2) Vs(2) by (cases Vs) (auto simp: hd_conv_nth)
  moreover have "ufl_elements M = Inr (map fs_element Vs)"
    using es(2) Vs(2) by simp
  ultimately show "\<exists>Vs. args = map FS Vs \<and>
            ufl_elements M = Inr (map fs_element Vs) \<and>
            ufl_element M =
              (if length Vs = 1 then Inr (fs_element (hd Vs))
               else Inl (UFLException msg_multiple_elements))"
    using Vs(1) by blast
qed (simp_all add: MixedFunctionSpace_init_def bind_result_def)

text \<open>The theorem at a space built from one function space.\<close>

theorem MixedFunctionSpace_ufl_element_one_sub_space_witness:
  "ufl_element (MixedFunctionSpace
       [FS (FunctionSpace PyNone (Some (Element (Single (Cell ''triangle'')) [] ''Lagrange'')))]
       [Some (Element (Single (Cell ''triangle'')) [] ''Lagrange'')])
     = Inr (Some (Element (Single (Cell ''triangle'')) [] ''Lagrange''))"
proof -
  have init: "MixedFunctionSpace_init
       [FS (FunctionSpace PyNone (Some (Element (Single (Cell ''triangle'')) [] ''Lagrange'')))]
     = Inr (MixedFunctionSpace
       [FS (FunctionSpace PyNone (Some (Element (Single (Cell ''triangle'')) [] ''Lagrange'')))]
       [Some (Element (Single (Cell ''triangle'')) [] ''Lagrange'')])"
    by (simp add: MixedFunctionSpace_init_def bind_result_def)
  from MixedFunctionSpace_ufl_element_one_sub_space [THEN conjunct1, rule_format, OF init]
  show ?thesis by auto
qed

text \<open>
  Against C2 as stated: a space built from two function spaces with the same element has
  exactly one distinct element among its sub-spaces, and \<open>ufl_element()\<close> fails on it.
\<close>

theorem MixedFunctionSpace_ufl_element_counterexample:
  "MixedFunctionSpace_init
       [FS (FunctionSpace PyNone (Some (Element (Single (Cell ''triangle'')) [] ''Lagrange''))),
        FS (FunctionSpace PyNone (Some (Element (Single (Cell ''triangle'')) [] ''Lagrange'')))]
     = Inr (MixedFunctionSpace
       [FS (FunctionSpace PyNone (Some (Element (Single (Cell ''triangle'')) [] ''Lagrange''))),
        FS (FunctionSpace PyNone (Some (Element (Single (Cell ''triangle'')) [] ''Lagrange'')))]
       [Some (Element (Single (Cell ''triangle'')) [] ''Lagrange''),
        Some (Element (Single (Cell ''triangle'')) [] ''Lagrange'')])
   \<and> card (set [Some (Element (Single (Cell ''triangle'')) [] ''Lagrange''),
                Some (Element (Single (Cell ''triangle'')) [] ''Lagrange'')]) = 1
   \<and> ufl_element (MixedFunctionSpace
       [FS (FunctionSpace PyNone (Some (Element (Single (Cell ''triangle'')) [] ''Lagrange''))),
        FS (FunctionSpace PyNone (Some (Element (Single (Cell ''triangle'')) [] ''Lagrange'')))]
       [Some (Element (Single (Cell ''triangle'')) [] ''Lagrange''),
        Some (Element (Single (Cell ''triangle'')) [] ''Lagrange'')])
     = Inl (UFLException msg_multiple_elements)"
  by (simp add: MixedFunctionSpace_init_def bind_result_def)

section \<open>Properties of the coefficients\<close>

text \<open>
  C9. Two coefficients are equal under \<open>==\<close> exactly when they have the same count and
  their function spaces are equal; the parts and the parents of the two coefficients do
  not affect the result.
\<close>

theorem Coefficient_eq_count_and_function_space:
  "(Coefficient_eq a (PyCoefficient b) \<longleftrightarrow>
      count a = count b \<and> function_space_eq (ufl_function_space a) (ufl_function_space b))
   \<and> Coefficient_eq (Coefficient V m p q) (PyCoefficient (Coefficient W n p' q')) =
       Coefficient_eq (Coefficient V m r s) (PyCoefficient (Coefficient W n r' s'))"
proof -
  have *: "Coefficient_eq x (PyCoefficient y) \<longleftrightarrow>
      count x = count y \<and> function_space_eq (ufl_function_space x) (ufl_function_space y)"
    for x y
    by (auto simp: Coefficient_eq_def function_space_eq_def)
  show ?thesis by (simp add: *)
qed

text \<open>The theorem at two coefficients that differ in part and parent only, and at two
  that differ in count.\<close>

theorem Coefficient_eq_count_and_function_space_witness:
  "Coefficient_eq
     (Coefficient (FS (FunctionSpace PyNone None)) 3 (Some 0) None)
     (PyCoefficient (Coefficient (FS (FunctionSpace PyNone None)) 3 (Some 1)
        (Some (Coefficient (FS (FunctionSpace PyNone None)) 7 None None))))
   \<and> \<not> Coefficient_eq
     (Coefficient (FS (FunctionSpace PyNone None)) 3 None None)
     (PyCoefficient (Coefficient (FS (FunctionSpace PyNone None)) 4 None None))"
  using Coefficient_eq_count_and_function_space
    [THEN conjunct1,
     of "Coefficient (FS (FunctionSpace PyNone None)) 3 (Some 0) None"
        "Coefficient (FS (FunctionSpace PyNone None)) 3 (Some 1)
           (Some (Coefficient (FS (FunctionSpace PyNone None)) 7 None None))"]
    Coefficient_eq_count_and_function_space
    [THEN conjunct1,
     of "Coefficient (FS (FunctionSpace PyNone None)) 3 None None"
        "Coefficient (FS (FunctionSpace PyNone None)) 4 None None"]
  by (simp add: function_space_eq_def)

text \<open>
  C3. The signature data of a coefficient embeds the number that the renumbering gives
  it, not its count: two coefficients on the same function space with different counts
  and no part or parent, to which the renumbering gives the same number, have the same
  signature data; where the signature data of the space is defined, both are the tuple
  made of that number, no part, no parent and the data of the space.
\<close>

theorem Coefficient_signature_data_renumbered:
  assumes "renumbering (CoefficientKey (Coefficient V m None None)) = Some n"
      and "renumbering (CoefficientKey (Coefficient V m' None None)) = Some n"
      and "m \<noteq> m'"
  shows "Coefficient_signature_data renumbering (Coefficient V m None None) =
           Coefficient_signature_data renumbering (Coefficient V m' None None)
         \<and> (ufl_signature_data renumbering V = Inr fsdata \<longrightarrow>
              Coefficient_signature_data renumbering (Coefficient V m None None) =
                Inr (SigCoefficient n None None fsdata)
            \<and> Coefficient_signature_data renumbering (Coefficient V m' None None) =
                Inr (SigCoefficient n None None fsdata))"
  using assms by (simp add: Coefficient_signature_data_def lookup_def bind_result_def)

text \<open>The theorem at the counts 3 and 4, both renumbered to 0.\<close>

theorem Coefficient_signature_data_renumbered_witness:
  "Coefficient_signature_data
       (map_of [(CoefficientKey (Coefficient (FS (FunctionSpace PyNone None)) 3 None None), 0),
                (CoefficientKey (Coefficient (FS (FunctionSpace PyNone None)) 4 None None), 0)])
       (Coefficient (FS (FunctionSpace PyNone None)) 3 None None)
     = Inr (SigCoefficient 0 None None (SigFunctionSpace PyNone None))
   \<and> Coefficient_signature_data
       (map_of [(CoefficientKey (Coefficient (FS (FunctionSpace PyNone None)) 3 None None), 0),
                (CoefficientKey (Coefficient (FS (FunctionSpace PyNone None)) 4 None None), 0)])
       (Coefficient (FS (FunctionSpace PyNone None)) 4 None None)
     = Inr (SigCoefficient 0 None None (SigFunctionSpace PyNone None))"
proof -
  let ?r = "map_of [(CoefficientKey (Coefficient (FS (FunctionSpace PyNone None)) 3 None None), 0::int),
                (CoefficientKey (Coefficient (FS (FunctionSpace PyNone None)) 4 None None), 0)]"
  have a: "?r (CoefficientKey (Coefficient (FS (FunctionSpace PyNone None)) 3 None None)) = Some 0"
    by simp
  have b: "?r (CoefficientKey (Coefficient (FS (FunctionSpace PyNone None)) 4 None None)) = Some 0"
    by simp
  have c: "(3::int) \<noteq> 4" by simp
  have d: "ufl_signature_data ?r (FS (FunctionSpace PyNone None)) =
             Inr (SigFunctionSpace PyNone None)"
    by (simp add: FunctionSpace_signature_data_def bind_result_def)
  from Coefficient_signature_data_renumbered [OF a b c, THEN conjunct2, rule_format, OF d]
  show ?thesis .
qed




section \<open>Properties of the differential operators\<close>

text \<open>The assertion of \<open>Diff.__init__\<close> holds exactly when the two index sets are the
  same, so that a \<open>Diff\<close> node is built exactly then.\<close>

lemma Diff_init_succeeds_iff:
  "(\<exists>D. Diff_init (UFLObj f) (UFLObj (Variable e l)) = Inr D) \<longleftrightarrow>
     set (free_indices f) = set (free_indices e)"
  by (auto simp: Diff_init_def bind_result_def ufl_assert_def isinstance_UFLObject_def
        isinstance_Variable_def symmetric_difference_def Let_def)

text \<open>
  C1. The specification has \<open>Diff(f, x)\<close> fail when \<open>f\<close> and \<open>x\<close> share a free index
  and succeed when their free indices are disjoint. The code, evaluated: with the index 0
  free in both \<open>f\<close> and \<open>x\<close> the node is built, with the free indices 0 and 0; with the
  index 0 free in \<open>f\<close> and no index free in \<open>x\<close> the constructor fails with the message
  on repeated indices.
\<close>

theorem Diff_init_at_shared_and_disjoint_indices:
  "Diff_init (UFLObj (UFLObject [] [0])) (UFLObj (Variable (UFLObject [] [0]) 0)) =
     Inr (Diff (UFLObject [] [0]) (Variable (UFLObject [] [0]) 0) [0, 0] [])
   \<and> Diff_init (UFLObj (UFLObject [] [0])) (UFLObj (Variable (UFLObject [] []) 0)) =
     Inl (UFLException msg_diff_repeated)"
  by (simp add: Diff_init_def bind_result_def ufl_assert_def isinstance_UFLObject_def
        isinstance_Variable_def symmetric_difference_def Let_def)

text \<open>
  C7. For an expression of rank at least 1 without free indices, \<open>Div(f)\<close> is built and its
  shape is the shape of \<open>f\<close> without its leading axis; construction fails for an
  expression of rank 0 and for one with free indices. The shape \<open>(3,)\<close> gives \<open>()\<close> and
  the shape \<open>(3, 3)\<close> gives \<open>(3,)\<close>.
\<close>

theorem Div_shape_drops_leading_axis:
  "(rank f \<ge> 1 \<and> free_indices f = [] \<longrightarrow>
      Div_init f = Inr (Div f) \<and> shape (Div f) = tl (shape f) \<and> rank (Div f) = rank f - 1)
   \<and> (rank g = 0 \<longrightarrow> Div_init g = Inl (UFLException msg_div_scalar))
   \<and> (rank h \<ge> 1 \<and> free_indices h \<noteq> [] \<longrightarrow> Div_init h = Inl (UFLException msg_div_free))
   \<and> (shape u = [Dim 3] \<and> free_indices u = [] \<longrightarrow>
        Div_init u = Inr (Div u) \<and> shape (Div u) = [])
   \<and> (shape v = [Dim 3, Dim 3] \<and> free_indices v = [] \<longrightarrow>
        Div_init v = Inr (Div v) \<and> shape (Div v) = [Dim 3])"
  by (auto simp: Div_init_def bind_result_def ufl_assert_def rank_def drop_Suc)

text \<open>The theorem at the shapes \<open>(2, 3)\<close>, \<open>()\<close>, \<open>(3,)\<close> with a free index, \<open>(3,)\<close> and
  \<open>(3, 3)\<close>.\<close>

theorem Div_shape_drops_leading_axis_witness:
  "Div_init (UFLObject [Dim 2, Dim 3] []) = Inr (Div (UFLObject [Dim 2, Dim 3] []))
   \<and> shape (Div (UFLObject [Dim 2, Dim 3] [])) = [Dim 3]
   \<and> Div_init (UFLObject [] []) = Inl (UFLException msg_div_scalar)
   \<and> Div_init (UFLObject [Dim 3] [5]) = Inl (UFLException msg_div_free)
   \<and> shape (Div (UFLObject [Dim 3] [])) = []
   \<and> shape (Div (UFLObject [Dim 3, Dim 3] [])) = [Dim 3]"
  using Div_shape_drops_leading_axis
    [of "UFLObject [Dim 2, Dim 3] []" "UFLObject [] []" "UFLObject [Dim 3] [5]"
        "UFLObject [Dim 3] []" "UFLObject [Dim 3, Dim 3] []"]
  by (simp add: rank_def)

section \<open>Properties of the variables\<close>

text \<open>
  The module binds no name \<open>Variable\<close>, so every comparison raises \<open>NameError\<close>. Were the
  name bound to the class \<open>NewVariable\<close>, two variables would be equal exactly when the
  counts of their labels are, whatever they wrap, and a variable would differ from any
  value of another class.
\<close>

lemma NewVariable_eq_unbound_name:
  "NewVariable_eq variable2_globals v other = Inl (NameError ''Variable'')"
  by (simp add: NewVariable_eq_def variable2_globals_def)

lemma NewVariable_eq_if_bound:
  "NewVariable_eq (variable2_globals(''Variable'' \<mapsto> ClassObject NewVariable_class))
       (NewVariable e l) other =
     Inr (case other of
            VNewVariable w \<Rightarrow> label_count l = label_count (nv_label w)
          | _ \<Rightarrow> False)"
  by (cases other) (simp_all add: NewVariable_eq_def)

text \<open>
  C4. The specification has two variables equal under \<open>==\<close> exactly when the counts of
  their labels are equal. The code, evaluated at two variables with the same wrapped
  expression and the label count 0: the comparison raises \<open>NameError\<close>.
\<close>

theorem NewVariable_eq_raises_NameError:
  "NewVariable_eq variable2_globals
       (NewVariable (UFLObject [] []) (Label 0))
       (VNewVariable (NewVariable (UFLObject [] []) (Label 0)))
     = Inl (NameError ''Variable'')"
  by (simp add: NewVariable_eq_def variable2_globals_def)

section \<open>Properties of the transform propagation\<close>

lemma dispatcher_apply_handler:
  "apply_handler TransformedRuleDispatcher (Terminal t) r = Inr (Terminal t)"
  "apply_handler TransformedRuleDispatcher (ReferenceValue f) r =
     bind_result r (reuse_if_untouched (ReferenceValue f))"
  "apply_handler TransformedRuleDispatcher (Operator name ops) r =
     bind_result r (reuse_if_untouched (Operator name ops))"
  "apply_handler TransformedRuleDispatcher (Transformed A transform_op) r =
     bind_result r (transformed (Transformed A transform_op))"
  by (cases t; simp add: apply_handler_def TransformedRuleDispatcher_def terminal_def)
     (simp_all add: apply_handler_def TransformedRuleDispatcher_def)

lemma ruleset_apply_handler:
  "apply_handler (TransformedRuleset p) (Terminal t) r = Inr (Terminal t)"
  "apply_handler (TransformedRuleset p) (ReferenceValue f) r =
     reference_value p (ReferenceValue f)"
  "apply_handler (TransformedRuleset p) (Operator name ops) r =
     bind_result r (reuse_if_untouched (Operator name ops))"
  "apply_handler (TransformedRuleset p) (Transformed A transform_op) r =
     bind_result r (reuse_if_untouched (Transformed A transform_op))"
  by (cases t; simp add: apply_handler_def TransformedRuleset_def terminal_def)
     (simp_all add: apply_handler_def TransformedRuleset_def)

lemma map_expr_dag_operands_unchanged:
  "(\<And>v. v \<in> set vs \<Longrightarrow> map_expr_dag rules v = Inr v) \<Longrightarrow>
     map_expr_dag_operands rules vs = Inr vs"
  by (induction vs) simp_all

lemma dispatcher_fixed_point:
  "transformed_free e \<Longrightarrow> map_expr_dag TransformedRuleDispatcher e = Inr e"
proof (induction e)
  case (Terminal t)
  show ?case by (simp add: dispatcher_apply_handler)
next
  case (ReferenceValue f)
  then show ?case
    by (simp add: dispatcher_apply_handler bind_result_def reuse_if_untouched_def)
next
  case (Transformed A transform_op)
  then show ?case by simp
next
  case (Operator name ops)
  then have "map_expr_dag_operands TransformedRuleDispatcher ops = Inr ops"
    by (intro map_expr_dag_operands_unchanged) (simp add: list_all_iff)
  then show ?case
    by (simp add: dispatcher_apply_handler bind_result_def reuse_if_untouched_def)
qed

text \<open>
  C6. On a reference-value node whose operand is a terminal and a form argument, the rule
  \<open>reference_value\<close> of the inner ruleset returns a new \<open>Transformed\<close> node that wraps the
  reference-value node itself and the carried operator; when the operand is no terminal
  or no form argument the rule fails with \<open>AssertionError\<close>. The traversal with the inner
  ruleset gives a reference-value node exactly the result of this rule: it does not
  descend into the node.
\<close>

theorem reference_value_wraps_form_argument:
  "reference_value transform_op (ReferenceValue f) =
     (if ufl_is_terminal f \<and> isinstance_FormArgument f
      then Inr (Transformed (ReferenceValue f) transform_op)
      else Inl AssertionError)
   \<and> map_expr_dag (TransformedRuleset transform_op) (ReferenceValue f) =
       reference_value transform_op (ReferenceValue f)"
  by (simp add: reference_value_def ruleset_apply_handler)

text \<open>The rule at the reference value of an argument, and at the reference value of a
  sum.\<close>

theorem reference_value_wraps_form_argument_witness:
  "map_expr_dag (TransformedRuleset (Terminal (OtherTerminal ''op'')))
       (ReferenceValue (Terminal (FormArgumentTerminal ''Argument'')))
     = Inr (Transformed (ReferenceValue (Terminal (FormArgumentTerminal ''Argument'')))
             (Terminal (OtherTerminal ''op'')))
   \<and> map_expr_dag (TransformedRuleset (Terminal (OtherTerminal ''op'')))
       (ReferenceValue (Operator ''Sum'' [Terminal (FormArgumentTerminal ''Argument''),
                                          Terminal (FormArgumentTerminal ''Argument'')]))
     = Inl AssertionError"
  using reference_value_wraps_form_argument
    [of "Terminal (OtherTerminal ''op'')" "Terminal (FormArgumentTerminal ''Argument'')"]
    reference_value_wraps_form_argument
    [of "Terminal (OtherTerminal ''op'')"
        "Operator ''Sum'' [Terminal (FormArgumentTerminal ''Argument''),
                           Terminal (FormArgumentTerminal ''Argument'')]"]
  by simp

text \<open>
  C5. \<open>apply_transforms\<close> is the identity on an expression DAG that contains no
  \<open>Transformed\<close> node: the pass succeeds and returns the DAG it was given, so whatever
  signature is computed from the result is the signature of the input.
\<close>

theorem apply_transforms_fixed_point:
  assumes "transformed_free e"
  shows "apply_transforms e = Inr e
         \<and> map_sum id signature_of (apply_transforms e) = Inr (signature_of e)"
  using assms dispatcher_fixed_point [of e]
  by (simp add: apply_transforms_def map_integrand_dags_def)

text \<open>The pass at a sum of a reference value and a terminal.\<close>

theorem apply_transforms_fixed_point_witness:
  "apply_transforms
       (Operator ''Sum'' [ReferenceValue (Terminal (FormArgumentTerminal ''Argument'')),
                          Terminal (OtherTerminal ''x'')])
     = Inr (Operator ''Sum'' [ReferenceValue (Terminal (FormArgumentTerminal ''Argument'')),
                              Terminal (OtherTerminal ''x'')])"
  using apply_transforms_fixed_point
    [where e = "Operator ''Sum'' [ReferenceValue (Terminal (FormArgumentTerminal ''Argument'')),
                                  Terminal (OtherTerminal ''x'')]"
       and signature_of = size]
  by simp

text \<open>The pass does change a DAG with a \<open>Transformed\<close> node: the operator carried by a
  transformed sum is moved to the reference value inside the sum.\<close>

lemma apply_transforms_pushes_operator:
  "apply_transforms
       (Transformed
          (Operator ''Sum'' [ReferenceValue (Terminal (FormArgumentTerminal ''Argument'')),
                             Terminal (OtherTerminal ''x'')])
          (Terminal (OtherTerminal ''op'')))
     = Inr (Operator ''Sum''
             [Transformed (ReferenceValue (Terminal (FormArgumentTerminal ''Argument'')))
                (Terminal (OtherTerminal ''op'')),
              Terminal (OtherTerminal ''x'')])"
  by (simp add: apply_transforms_def map_integrand_dags_def dispatcher_apply_handler
        ruleset_apply_handler bind_result_def transformed_def reuse_if_untouched_def
        reference_value_def)

end
